theory Spec2Isabelle
  imports Complex_Main "HOL-Library.Word" "HOL-Library.Sublist"
begin

section \<open>The time-expression resolver of zapping-node (class TimeParser)\<close>

text \<open>
  The development embeds the static methods of \<^verbatim>\<open>TimeParser\<close>: \<^verbatim>\<open>parseTimeExpression\<close>,
  \<^verbatim>\<open>generateDescription\<close>, \<^verbatim>\<open>formatTime\<close>, \<^verbatim>\<open>formatDate\<close>, \<^verbatim>\<open>validateTimeExpression\<close>,
  \<^verbatim>\<open>getCurrentTimestamp\<close> and \<^verbatim>\<open>getExamples\<close>.

  What the class takes from outside the repository is a parameter of the model, gathered in
  the record \<open>host\<close>: the chrono-node grammar, the wall clock, the time zone of the machine and
  the locale-dependent formatters of \<^verbatim>\<open>Date\<close>. What the class does to the outside (reading the
  clock, calling the grammar) is threaded through the record \<open>world\<close>.
\<close>

subsection \<open>Strings\<close>

text \<open>
  An ECMAScript string is a sequence of 16-bit code units. String literals of the source are
  ASCII; \<open>lit\<close> embeds them.
\<close>

type_synonym code_unit = "16 word"
type_synonym jsstring = "code_unit list"

definition lit :: "string \<Rightarrow> jsstring" where
  "lit s = map (\<lambda>c. of_nat (of_char c)) s"

text \<open>
  \<^verbatim>\<open>String.prototype.trim\<close> removes from both ends the code units that are WhiteSpace or
  LineTerminator: TAB, LF, VT, FF, CR, SPACE, NO-BREAK SPACE, OGHAM SPACE MARK, U+2000 to
  U+200A, LINE SEPARATOR, PARAGRAPH SEPARATOR, U+202F, U+205F, IDEOGRAPHIC SPACE and U+FEFF.
\<close>

definition isWhiteSpace :: "code_unit \<Rightarrow> bool" where
  "isWhiteSpace c \<longleftrightarrow>
     c \<in> set [0x0009, 0x000A, 0x000B, 0x000C, 0x000D, 0x0020, 0x00A0, 0x1680,
                0x2028, 0x2029, 0x202F, 0x205F, 0x3000, 0xFEFF]
     \<or> (0x2000 \<le> c \<and> c \<le> 0x200A)"

definition trim :: "jsstring \<Rightarrow> jsstring" where
  "trim s = rev (dropWhile isWhiteSpace (rev (dropWhile isWhiteSpace s)))"

subsection \<open>Numbers\<close>

text \<open>
  Every number the class computes is an integer far below \<open>2^53\<close> in magnitude, so it is
  modelled as an \<open>int\<close>. \<open>floor_div a b\<close> is \<^verbatim>\<open>Math.floor(a / b)\<close>: the quotient is taken in
  the reals and then floored.
\<close>

definition floor_div :: "int \<Rightarrow> int \<Rightarrow> int" where
  "floor_div a b = \<lfloor>real_of_int a / real_of_int b\<rfloor>"

text \<open>
  The decimal digits of a natural number, and \<^verbatim>\<open>Number::toString\<close> on an integer (what a template
  literal \<^verbatim>\<open>${n}\<close> inserts).
\<close>

fun digits :: "nat \<Rightarrow> string" where
  "digits n =
     (if n < 10 then [''0123456789'' ! n]
      else digits (n div 10) @ [''0123456789'' ! (n mod 10)])"

declare digits.simps [simp del]

definition Number_toString :: "int \<Rightarrow> jsstring" where
  "Number_toString n =
     (if n < 0 then lit ''-'' @ lit (digits (nat (- n))) else lit (digits (nat n)))"

subsection \<open>Time values and the calendar of ECMAScript\<close>

text \<open>
  A \<^verbatim>\<open>Date\<close> holds a time value: milliseconds since the epoch, UTC. The dates of this class
  come from the clock and from the grammar, which yield valid dates, so a date is an
  \<open>int\<close>; the one operation of the class that can leave the range of time values is
  \<^verbatim>\<open>setDate\<close>, whose result is \<open>None\<close> for an Invalid Date. The functions below are the abstract
  operations of the language specification (Day, TimeWithinDay, DayFromYear, YearFromTime,
  MonthFromTime, DateFromTime, MakeDay, MakeDate, TimeClip, LocalTime, UTC).
\<close>

definition msPerDay :: int where
  "msPerDay = 86400000"

definition Day :: "int \<Rightarrow> int" where
  "Day t = floor_div t msPerDay"

definition TimeWithinDay :: "int \<Rightarrow> int" where
  "TimeWithinDay t = t mod msPerDay"

definition DaysInYear :: "int \<Rightarrow> int" where
  "DaysInYear y =
     (if y mod 4 \<noteq> 0 then 365
      else if y mod 100 \<noteq> 0 then 366
      else if y mod 400 \<noteq> 0 then 365
      else 366)"

definition DayFromYear :: "int \<Rightarrow> int" where
  "DayFromYear y =
     365 * (y - 1970) + floor_div (y - 1969) 4 - floor_div (y - 1901) 100
       + floor_div (y - 1601) 400"

text \<open>
  YearFromTime is specified as the largest year whose first day is not after \<open>t\<close>. It is
  computed from the mean length of a year, 146097 / 400 days, corrected by at most one year
  (see \<open>YearFromTime_spec\<close>).
\<close>

definition YearFromTime :: "int \<Rightarrow> int" where
  "YearFromTime t =
     (let d = Day t;
          y = 1970 + floor_div (400 * d) 146097
      in if d < DayFromYear y then y - 1
         else if DayFromYear (y + 1) \<le> d then y + 1
         else y)"

definition InLeapYear :: "int \<Rightarrow> int" where
  "InLeapYear t = (if DaysInYear (YearFromTime t) = 366 then 1 else 0)"

definition DayWithinYear :: "int \<Rightarrow> int" where
  "DayWithinYear t = Day t - DayFromYear (YearFromTime t)"

text \<open>The day within the year on which month \<open>m\<close> (0 to 11) begins.\<close>

definition monthStart :: "int \<Rightarrow> int \<Rightarrow> int" where
  "monthStart m leap =
     (if m = 0 then 0
      else if m = 1 then 31
      else [59, 90, 120, 151, 181, 212, 243, 273, 304, 334] ! nat (m - 2) + leap)"

definition MonthFromTime :: "int \<Rightarrow> int" where
  "MonthFromTime t =
     (let d = DayWithinYear t; l = InLeapYear t
      in if d < 31 then 0
         else if d < 59 + l then 1
         else if d < 90 + l then 2
         else if d < 120 + l then 3
         else if d < 151 + l then 4
         else if d < 181 + l then 5
         else if d < 212 + l then 6
         else if d < 243 + l then 7
         else if d < 273 + l then 8
         else if d < 304 + l then 9
         else if d < 334 + l then 10
         else 11)"

definition DateFromTime :: "int \<Rightarrow> int" where
  "DateFromTime t = DayWithinYear t - monthStart (MonthFromTime t) (InLeapYear t) + 1"

definition MakeDay :: "int \<Rightarrow> int \<Rightarrow> int \<Rightarrow> int" where
  "MakeDay year month dt =
     (let ym = year + floor_div month 12;
          mn = month mod 12
      in DayFromYear ym + monthStart mn (if DaysInYear ym = 366 then 1 else 0) + dt - 1)"

definition MakeDate :: "int \<Rightarrow> int \<Rightarrow> int" where
  "MakeDate day time = day * msPerDay + time"

definition TimeClip :: "int \<Rightarrow> int option" where
  "TimeClip time = (if \<bar>time\<bar> > 8640000000000000 then None else Some time)"

subsection \<open>The host: grammar, clock, time zone, formatters\<close>

text \<open>
  One candidate of \<^verbatim>\<open>chrono.parse\<close>: where it matched in the input, and the instant its
  \<^verbatim>\<open>date()\<close> method returns.
\<close>

record ParsedResult =
  match_index :: nat
  result_date :: int

text \<open>The options object passed to \<^verbatim>\<open>toLocaleTimeString\<close> and \<^verbatim>\<open>toLocaleDateString\<close>.\<close>

record DateTimeFormatOptions =
  weekday :: "string option"
  month :: "string option"
  day :: "string option"
  hour :: "string option"
  minute :: "string option"
  hour12 :: "bool option"

text \<open>
  \<open>wall_clock k\<close> is what the \<open>k\<close>-th reading of the system clock returns. \<open>chrono_parse\<close> is
  the grammar: the text and the reference instant (chrono reads the clock when no reference
  is passed) give the ranked candidates. \<open>LocalTZA t isUTC\<close> is the offset of local time, as
  the language specification names it.
\<close>

record host =
  wall_clock :: "nat \<Rightarrow> int"
  chrono_parse :: "jsstring \<Rightarrow> int \<Rightarrow> ParsedResult list"
  LocalTZA :: "int \<Rightarrow> bool \<Rightarrow> int"
  toLocaleTimeString :: "int \<Rightarrow> jsstring \<Rightarrow> DateTimeFormatOptions \<Rightarrow> jsstring"
  toLocaleDateString :: "int \<Rightarrow> jsstring \<Rightarrow> DateTimeFormatOptions \<Rightarrow> jsstring"

text \<open>
  The effects of the class: how often the clock was read, and the texts the grammar was
  called with, oldest first.
\<close>

record world =
  clock_reads :: nat
  grammar_calls :: "jsstring list"

text \<open>\<^verbatim>\<open>new Date()\<close> and \<^verbatim>\<open>Date.now()\<close>: one reading of the clock.\<close>

definition new_Date :: "host \<Rightarrow> world \<Rightarrow> int \<times> world" where
  "new_Date h w = (wall_clock h (clock_reads w), w\<lparr>clock_reads := Suc (clock_reads w)\<rparr>)"

text \<open>\<^verbatim>\<open>chrono.parse(text)\<close>: reads the clock for its reference and is recorded in the world.\<close>

definition chrono_parse_call :: "host \<Rightarrow> jsstring \<Rightarrow> world \<Rightarrow> ParsedResult list \<times> world" where
  "chrono_parse_call h s w =
     (let (ref, w1) = new_Date h w
      in (chrono_parse h s ref, w1\<lparr>grammar_calls := grammar_calls w1 @ [s]\<rparr>))"

text \<open>\<^verbatim>\<open>results[i]\<close>: \<^verbatim>\<open>undefined\<close> outside the array.\<close>

definition index :: "'a list \<Rightarrow> nat \<Rightarrow> 'a option" where
  "index xs i = (if i < length xs then Some (xs ! i) else None)"

definition LocalTime :: "host \<Rightarrow> int \<Rightarrow> int" where
  "LocalTime h t = t + LocalTZA h t True"

definition UTC :: "host \<Rightarrow> int \<Rightarrow> int" where
  "UTC h t = t - LocalTZA h t False"

text \<open>\<^verbatim>\<open>Date.prototype.getDate\<close> and \<^verbatim>\<open>Date.prototype.setDate\<close> on a time value.\<close>

definition getDate :: "host \<Rightarrow> int \<Rightarrow> int" where
  "getDate h tv = DateFromTime (LocalTime h tv)"

definition setDate :: "host \<Rightarrow> int \<Rightarrow> int \<Rightarrow> int option" where
  "setDate h tv dt =
     (let t = LocalTime h tv;
          newDate = MakeDate (MakeDay (YearFromTime t) (MonthFromTime t) dt) (TimeWithinDay t)
      in TimeClip (UTC h newDate))"

subsection \<open>TimeParser\<close>

record ParsedTime =
  timestamp :: int
  description :: jsstring
  date :: int

definition formatTime :: "host \<Rightarrow> int \<Rightarrow> jsstring" where
  "formatTime h d =
     toLocaleTimeString h d (lit ''en-US'')
       \<lparr>weekday = None, month = None, day = None,
        hour = Some ''numeric'', minute = Some ''2-digit'', hour12 = Some True\<rparr>"

definition formatDate :: "host \<Rightarrow> int \<Rightarrow> jsstring" where
  "formatDate h d =
     toLocaleDateString h d (lit ''en-US'')
       \<lparr>weekday = Some ''short'', month = Some ''short'', day = Some ''numeric'',
        hour = Some ''numeric'', minute = Some ''2-digit'', hour12 = Some True\<rparr>"

definition generateDescription :: "host \<Rightarrow> jsstring \<Rightarrow> int \<Rightarrow> world \<Rightarrow> jsstring \<times> world" where
  "generateDescription h originalExpression parsedDate w =
     (let (now, w1) = new_Date h w;
          diffMs = now - parsedDate;
          diffMinutes = floor_div diffMs (1000 * 60);
          diffHours = floor_div diffMinutes 60;
          diffDays = floor_div diffHours 24
      in if diffMinutes < 60 then
           (Number_toString diffMinutes @ lit '' minute''
              @ (if diffMinutes \<noteq> 1 then lit ''s'' else lit '''') @ lit '' ago'', w1)
         else if diffHours < 24 then
           (Number_toString diffHours @ lit '' hour''
              @ (if diffHours \<noteq> 1 then lit ''s'' else lit '''') @ lit '' ago'', w1)
         else if diffDays < 7 then
           (if diffDays = 1 then (lit ''yesterday at '' @ formatTime h parsedDate, w1)
            else (Number_toString diffDays @ lit '' day''
                    @ (if diffDays \<noteq> 1 then lit ''s'' else lit '''') @ lit '' ago at ''
                    @ formatTime h parsedDate, w1))
         else (originalExpression @ lit '' ('' @ formatDate h parsedDate @ lit '')'', w1))"

definition parseTimeExpression :: "host \<Rightarrow> jsstring \<Rightarrow> world \<Rightarrow> ParsedTime option \<times> world" where
  "parseTimeExpression h expression w =
     (let trimmed = trim expression
      in if trimmed = [] then (None, w)
         else
           let (results, w1) = chrono_parse_call h trimmed w
           in if length results = 0 then (None, w1)
              else
                case index results 0 of
                  None \<Rightarrow> (None, w1)
                | Some result \<Rightarrow>
                    let parsedDate = result_date result;
                        (now, w2) = new_Date h w1
                    in if parsedDate > now then
                         (case setDate h parsedDate (getDate h parsedDate - 1) of
                            None \<Rightarrow> (None, w2)
                          | Some dayBefore \<Rightarrow>
                              if dayBefore \<le> now then
                                let timestamp = floor_div dayBefore 1000;
                                    (description, w3) =
                                      generateDescription h expression dayBefore w2
                                in (Some \<lparr>timestamp = timestamp, description = description,
                                          date = dayBefore\<rparr>, w3)
                              else (None, w2))
                       else
                         let timestamp = floor_div parsedDate 1000;
                             (description, w3) =
                               generateDescription h expression parsedDate w2
                         in (Some \<lparr>timestamp = timestamp, description = description,
                                   date = parsedDate\<rparr>, w3))"

definition validateTimeExpression :: "host \<Rightarrow> jsstring \<Rightarrow> world \<Rightarrow> bool \<times> world" where
  "validateTimeExpression h expression w =
     (let (r, w1) = parseTimeExpression h expression w in (r \<noteq> None, w1))"

definition getCurrentTimestamp :: "host \<Rightarrow> world \<Rightarrow> int \<times> world" where
  "getCurrentTimestamp h w = (let (now, w1) = new_Date h w in (floor_div now 1000, w1))"

definition getExamples :: "jsstring list" where
  "getExamples =
     [lit ''2 hours ago'',
      lit ''30 minutes ago'',
      lit ''1 day ago'',
      lit ''yesterday at 3pm'',
      lit ''yesterday 15:30'',
      lit ''last friday at 9am'',
      lit ''tuesday at noon'',
      lit ''3 days ago at 2pm'',
      lit ''this morning at 8am'',
      lit ''last night at 10pm'']"

subsection \<open>A sample host\<close>

text \<open>
  A concrete host on which the class can be run: the clock starts at 2024-06-15T12:00:00.000Z
  and advances one millisecond per reading, local time is four hours behind UTC all year,
  the grammar knows a handful of phrases, and the formatters print the local time in the
  \<^verbatim>\<open>en-US\<close> manner.
\<close>

definition sample_grammar :: "jsstring \<Rightarrow> int \<Rightarrow> ParsedResult list" where
  "sample_grammar s ref =
     (if s = lit ''2 hours ago'' then [\<lparr>match_index = 0, result_date = ref - 7200000\<rparr>]
      else if s = lit ''yesterday'' then [\<lparr>match_index = 0, result_date = ref - 86400000\<rparr>]
      else if s = lit ''3 weeks ago'' then [\<lparr>match_index = 0, result_date = ref - 1814400000\<rparr>]
      else if s = lit ''11pm'' then [\<lparr>match_index = 0, result_date = 1718506800000\<rparr>]
      else if s = lit ''next year'' then [\<lparr>match_index = 0, result_date = ref + 31536000000\<rparr>]
      else if s = lit ''30 minutes ago'' then [\<lparr>match_index = 0, result_date = ref - 1800000\<rparr>]
      else if s = lit ''3 days ago'' then [\<lparr>match_index = 0, result_date = ref - 259200000\<rparr>]
      else [])"

definition sample_time :: "int \<Rightarrow> jsstring" where
  "sample_time d =
     (let t = TimeWithinDay (d - 14400000);
          hh = t div 3600000;
          mm = t div 60000 mod 60
      in Number_toString (if hh mod 12 = 0 then 12 else hh mod 12) @ lit '':''
           @ (if mm < 10 then lit ''0'' else []) @ Number_toString mm
           @ (if hh < 12 then lit '' AM'' else lit '' PM''))"

definition sample_date :: "int \<Rightarrow> jsstring" where
  "sample_date d =
     (let t = d - 14400000
      in lit ([''Thu'', ''Fri'', ''Sat'', ''Sun'', ''Mon'', ''Tue'', ''Wed''] ! nat (Day t mod 7))
           @ lit '', ''
           @ lit ([''Jan'', ''Feb'', ''Mar'', ''Apr'', ''May'', ''Jun'', ''Jul'', ''Aug'', ''Sep'',
                   ''Oct'', ''Nov'', ''Dec''] ! nat (MonthFromTime t))
           @ lit '' '' @ Number_toString (DateFromTime t) @ lit '', '' @ sample_time d)"

definition sample_host :: host where
  "sample_host =
     \<lparr>wall_clock = (\<lambda>k. 1718452800000 + int k),
      chrono_parse = sample_grammar,
      LocalTZA = (\<lambda>t isUTC. - 14400000),
      toLocaleTimeString = (\<lambda>d locales options. sample_time d),
      toLocaleDateString = (\<lambda>d locales options. sample_date d)\<rparr>"

definition sample_world :: world where
  "sample_world = \<lparr>clock_reads = 0, grammar_calls = []\<rparr>"

text \<open>
  A host with a daylight-saving transition (New York, 2024-03-10): local time is five hours
  behind UTC before 07:00:00Z and four hours behind from then on, so the local times from
  02:00 to 03:00 of that day do not exist; such a local time is converted with the offset
  before the transition, as the language specification prescribes. The clock starts at
  2024-03-10T12:00:00.000Z, a Sunday.
\<close>

definition gap_grammar :: "jsstring \<Rightarrow> int \<Rightarrow> ParsedResult list" where
  "gap_grammar s ref =
     (if s = lit ''monday at 2:30am'' then [\<lparr>match_index = 0, result_date = 1710138600000\<rparr>]
      else [])"

definition gap_host :: host where
  "gap_host =
     \<lparr>wall_clock = (\<lambda>k. 1710072000000 + int k),
      chrono_parse = gap_grammar,
      LocalTZA = (\<lambda>t isUTC.
        if isUTC then (if t < 1710054000000 then - 18000000 else - 14400000)
        else (if t < 1710039600000 then - 18000000 else - 14400000)),
      toLocaleTimeString =
        (\<lambda>d locales options. sample_time (if d < 1710054000000 then d - 3600000 else d)),
      toLocaleDateString =
        (\<lambda>d locales options. sample_date (if d < 1710054000000 then d - 3600000 else d))\<rparr>"

section \<open>Auxiliary facts\<close>

subsection \<open>Flooring, the calendar and trimming\<close>

lemma floor_div_eq: "floor_div a b = a div b"
  by (simp add: floor_div_def floor_divide_of_int_eq)

lemma MonthFromTime_range: "0 \<le> MonthFromTime t \<and> MonthFromTime t \<le> 11"
  by (simp add: MonthFromTime_def Let_def)

lemma MakeDay_DateFromTime:
  "MakeDay (YearFromTime t) (MonthFromTime t) (DateFromTime t + k) = Day t + k"
proof -
  have m: "floor_div (MonthFromTime t) 12 = 0" "MonthFromTime t mod 12 = MonthFromTime t"
    using MonthFromTime_range [of t] by (simp_all add: floor_div_eq)
  show ?thesis
    by (simp add: MakeDay_def m DateFromTime_def DayWithinYear_def InLeapYear_def)
qed

lemma MakeDate_Day: "MakeDate (Day t + k) (TimeWithinDay t) = t + k * msPerDay"
  by (simp add: MakeDate_def Day_def TimeWithinDay_def floor_div_eq algebra_simps)

lemma setDate_getDate:
  "setDate h tv (getDate h tv + k) = TimeClip (UTC h (LocalTime h tv + k * msPerDay))"
  by (simp add: setDate_def getDate_def MakeDay_DateFromTime MakeDate_Day)

lemma setDate_day_before:
  "setDate h tv (getDate h tv - 1) = TimeClip (UTC h (LocalTime h tv - msPerDay))"
  using setDate_getDate [of h tv "- 1"] by simp

text \<open>
  \<open>YearFromTime\<close> meets its specification: it is the largest year whose first day is not
  after the given time.
\<close>

lemma div_sandwich:
  fixes x k :: int
  assumes "0 < k"
  shows "k * (x div k) \<le> x" and "x < k * (x div k) + k"
proof -
  have "x = k * (x div k) + x mod k" by simp
  moreover have "0 \<le> x mod k" "x mod k < k" using assms by simp_all
  ultimately show "k * (x div k) \<le> x" and "x < k * (x div k) + k" by linarith+
qed

lemma DayFromYear_bounds:
  obtains a b c where "DayFromYear y = 365 * (y - 1970) + a - b + c"
    and "4 * a \<le> y - 1969" and "y - 1969 < 4 * a + 4"
    and "100 * b \<le> y - 1901" and "y - 1901 < 100 * b + 100"
    and "400 * c \<le> y - 1601" and "y - 1601 < 400 * c + 400"
proof
  show "DayFromYear y
      = 365 * (y - 1970) + (y - 1969) div 4 - (y - 1901) div 100 + (y - 1601) div 400"
    by (simp add: DayFromYear_def floor_div_eq)
  show "4 * ((y - 1969) div 4) \<le> y - 1969" by (rule div_sandwich) simp
  show "y - 1969 < 4 * ((y - 1969) div 4) + 4" by (rule div_sandwich) simp
  show "100 * ((y - 1901) div 100) \<le> y - 1901" by (rule div_sandwich) simp
  show "y - 1901 < 100 * ((y - 1901) div 100) + 100" by (rule div_sandwich) simp
  show "400 * ((y - 1601) div 400) \<le> y - 1601" by (rule div_sandwich) simp
  show "y - 1601 < 400 * ((y - 1601) div 400) + 400" by (rule div_sandwich) simp
qed

lemma DayFromYear_lower: "400 * DayFromYear (y - 1) \<le> 146097 * (y - 1970)"
proof -
  obtain a b c where E: "DayFromYear (y - 1) = 365 * (y - 1 - 1970) + a - b + c"
    and a: "4 * a \<le> y - 1 - 1969" and b: "y - 1 - 1901 < 100 * b + 100"
    and c: "400 * c \<le> y - 1 - 1601"
    by (rule DayFromYear_bounds [of "y - 1"])
  have 1: "100 * (4 * a) \<le> 100 * (y - 1 - 1969)" using a by simp
  have 2: "4 * (y - 1 - 1901) \<le> 4 * (100 * b + 100)" using b by simp
  have 3: "400 * DayFromYear (y - 1)
             = 146000 * (y - 1971) + 100 * (4 * a) - 4 * (100 * b) + 400 * c"
    using E by (simp add: algebra_simps)
  show ?thesis using 1 2 3 c by (simp add: algebra_simps)
qed

lemma DayFromYear_upper: "146097 * (y - 1969) \<le> 400 * DayFromYear (y + 2)"
proof -
  obtain a b c where E: "DayFromYear (y + 2) = 365 * (y + 2 - 1970) + a - b + c"
    and a: "y + 2 - 1969 < 4 * a + 4" and b: "100 * b \<le> y + 2 - 1901"
    and c: "y + 2 - 1601 < 400 * c + 400"
    by (rule DayFromYear_bounds [of "y + 2"])
  have 1: "100 * (y + 2 - 1969) \<le> 100 * (4 * a + 4)" using a by simp
  have 2: "4 * (100 * b) \<le> 4 * (y + 2 - 1901)" using b by simp
  have 3: "400 * DayFromYear (y + 2)
             = 146000 * (y - 1968) + 100 * (4 * a) - 4 * (100 * b) + 400 * c"
    using E by (simp add: algebra_simps)
  show ?thesis using 1 2 3 c by (simp add: algebra_simps)
qed

lemma DayFromYear_step: "DayFromYear y < DayFromYear (y + 1)"
proof -
  obtain a b c where 1: "DayFromYear y = 365 * (y - 1970) + a - b + c"
    "4 * a \<le> y - 1969" "y - 1901 < 100 * b + 100" "400 * c \<le> y - 1601"
    by (rule DayFromYear_bounds [of y])
  obtain a' b' c' where 2: "DayFromYear (y + 1) = 365 * (y + 1 - 1970) + a' - b' + c'"
    "y + 1 - 1969 < 4 * a' + 4" "100 * b' \<le> y + 1 - 1901" "y + 1 - 1601 < 400 * c' + 400"
    by (rule DayFromYear_bounds [of "y + 1"])
  have "a \<le> a'" "b' \<le> b + 1" "c \<le> c'" using 1 2 by linarith+
  then show ?thesis using 1(1) 2(1) by simp
qed

lemma DayFromYear_mono: "y \<le> y' \<Longrightarrow> DayFromYear y \<le> DayFromYear y'"
proof (induction y' rule: int_ge_induct)
  case base
  show ?case by simp
next
  case (step i)
  then show ?case using DayFromYear_step [of i] by linarith
qed

lemma YearFromTime_spec:
  "DayFromYear (YearFromTime t) \<le> Day t \<and> Day t < DayFromYear (YearFromTime t + 1)"
proof -
  define d where "d = Day t"
  define y where "y = 1970 + (400 * d) div 146097"
  have "146097 * ((400 * d) div 146097) \<le> 400 * d"
    "400 * d < 146097 * ((400 * d) div 146097) + 146097"
    by linarith+
  then have b: "146097 * (y - 1970) \<le> 400 * d" "400 * d < 146097 * (y - 1969)"
    by (simp_all add: y_def)
  have lo: "DayFromYear (y - 1) \<le> d" using DayFromYear_lower [of y] b(1) by linarith
  have hi: "d < DayFromYear (y + 2)" using DayFromYear_upper [of y] b(2) by linarith
  have Y: "YearFromTime t =
      (if d < DayFromYear y then y - 1 else if DayFromYear (y + 1) \<le> d then y + 1 else y)"
    by (simp add: YearFromTime_def d_def y_def Let_def floor_div_eq)
  show ?thesis
    unfolding Y d_def [symmetric] using lo hi by (auto simp: add.commute)
qed

lemma YearFromTime_largest:
  assumes "DayFromYear y \<le> Day t"
  shows "y \<le> YearFromTime t"
proof (rule ccontr)
  assume "\<not> y \<le> YearFromTime t"
  then have "YearFromTime t + 1 \<le> y" by simp
  then have "DayFromYear (YearFromTime t + 1) \<le> DayFromYear y" by (rule DayFromYear_mono)
  with assms YearFromTime_spec [of t] show False by linarith
qed

lemma dropWhile_id: "xs = [] \<or> \<not> P (hd xs) \<Longrightarrow> dropWhile P xs = xs"
  by (cases xs) auto

lemma trim_Nil_iff: "trim s = [] \<longleftrightarrow> (\<forall>c\<in>set s. isWhiteSpace c)"
proof
  assume "trim s = []"
  then have a: "\<forall>c\<in>set (dropWhile isWhiteSpace s). isWhiteSpace c"
    by (simp add: trim_def)
  have "dropWhile isWhiteSpace s = []"
  proof (rule ccontr)
    assume n: "dropWhile isWhiteSpace s \<noteq> []"
    then have "\<not> isWhiteSpace (hd (dropWhile isWhiteSpace s))" by (rule hd_dropWhile)
    moreover have "hd (dropWhile isWhiteSpace s) \<in> set (dropWhile isWhiteSpace s)"
      using n by (rule hd_in_set)
    ultimately show False using a by blast
  qed
  then show "\<forall>c\<in>set s. isWhiteSpace c" by simp
next
  assume "\<forall>c\<in>set s. isWhiteSpace c"
  then have "dropWhile isWhiteSpace s = []" by simp
  then show "trim s = []" by (auto simp: trim_def dest: set_dropWhileD)
qed

lemma trim_ends:
  assumes "trim s \<noteq> []"
  shows "\<not> isWhiteSpace (hd (trim s))" and "\<not> isWhiteSpace (last (trim s))"
proof -
  let ?ys = "dropWhile isWhiteSpace s"
  let ?zs = "dropWhile isWhiteSpace (rev ?ys)"
  have zs: "?zs \<noteq> []" using assms by (simp add: trim_def)
  then have ys: "?ys \<noteq> []" by (auto dest: set_dropWhileD)
  have "\<not> isWhiteSpace (hd ?zs)" using zs by (rule hd_dropWhile)
  then show "\<not> isWhiteSpace (last (trim s))"
    using zs by (simp add: trim_def last_rev)
  have a: "\<not> isWhiteSpace (hd ?ys)" using ys by (rule hd_dropWhile)
  have "last (rev ?ys) = hd ?ys" using ys by (simp add: last_rev)
  have "rev ?ys = takeWhile isWhiteSpace (rev ?ys) @ ?zs" by simp
  then have "last (rev ?ys) = last ?zs" using zs by (metis last_appendR)
  then have "last ?zs = hd ?ys" using ys by (simp add: last_rev)
  then show "\<not> isWhiteSpace (hd (trim s))"
    using a zs by (simp add: trim_def hd_rev)
qed

lemma trim_idem: "trim (trim s) = trim s"
proof (cases "trim s = []")
  case True
  then show ?thesis by (simp add: trim_def [of "[]"])
next
  case False
  from trim_ends [OF False]
  have h: "\<not> isWhiteSpace (hd (trim s))" and l: "\<not> isWhiteSpace (last (trim s))" by simp_all
  have 1: "dropWhile isWhiteSpace (trim s) = trim s"
    using h by (simp add: dropWhile_id)
  have "hd (rev (trim s)) = last (trim s)" using False by (simp add: hd_rev)
  then have 2: "dropWhile isWhiteSpace (rev (trim s)) = rev (trim s)"
    using l by (simp add: dropWhile_id)
  show ?thesis
    unfolding trim_def [of "trim s"] 1 2 by simp
qed

subsection \<open>The description and the resolution, unfolded\<close>

lemma nested_floor:
  "x div 60000 div 60 = x div (3600000 :: int)"
  "x div 60000 div 60 div 24 = x div (86400000 :: int)"
  "x div 3600000 div 24 = x div (86400000 :: int)"
proof -
  have a: "x div 60000 div 60 = x div (60000 * 60)"
    by (rule zdiv_zmult2_eq [symmetric]) simp
  have b: "x div 3600000 div 24 = x div (3600000 * 24)"
    by (rule zdiv_zmult2_eq [symmetric]) simp
  show "x div 60000 div 60 = x div 3600000"
    using a by simp
  then show "x div 60000 div 60 div 24 = x div 86400000"
    using b by simp
  show "x div 3600000 div 24 = x div 86400000"
    using b by simp
qed

lemma lit_Nil: "lit [] = []"
  by (simp add: lit_def)

lemma lit_eq_Nil_iff: "lit s = [] \<longleftrightarrow> s = []"
  by (simp add: lit_def)

lemma world_eq:
  "w\<lparr>grammar_calls := g, clock_reads := c\<rparr> = \<lparr>clock_reads = c, grammar_calls = g\<rparr>"
  by (cases w) simp

lemma generateDescription_world:
  "snd (generateDescription h e d w) = w\<lparr>clock_reads := Suc (clock_reads w)\<rparr>"
  by (simp add: generateDescription_def new_Date_def Let_def)

lemma generateDescription_fst:
  "fst (generateDescription h e d w) =
     (let delta = wall_clock h (clock_reads w) - d;
          dm = delta div 60000; dh = delta div 3600000; dd = delta div 86400000
      in if dm < 60 then
           Number_toString dm @ lit '' minute'' @ (if dm = 1 then [] else lit ''s'') @ lit '' ago''
         else if dh < 24 then
           Number_toString dh @ lit '' hour'' @ (if dh = 1 then [] else lit ''s'') @ lit '' ago''
         else if dd < 7 then
           (if dd = 1 then lit ''yesterday at '' @ formatTime h d
            else Number_toString dd @ lit '' day'' @ (if dd = 1 then [] else lit ''s'')
                   @ lit '' ago at '' @ formatTime h d)
         else e @ lit '' ('' @ formatDate h d @ lit '')'')"
  by (simp add: generateDescription_def new_Date_def Let_def nested_floor floor_div_eq lit_Nil)

lemma parseTimeExpression_unfold:
  "parseTimeExpression h e w =
     (if trim e = [] then (None, w)
      else
        let w1 = \<lparr>clock_reads = Suc (clock_reads w), grammar_calls = grammar_calls w @ [trim e]\<rparr>;
            w2 = \<lparr>clock_reads = Suc (Suc (clock_reads w)),
                  grammar_calls = grammar_calls w @ [trim e]\<rparr>;
            w3 = \<lparr>clock_reads = Suc (Suc (Suc (clock_reads w))),
                  grammar_calls = grammar_calls w @ [trim e]\<rparr>;
            now = wall_clock h (Suc (clock_reads w))
        in case chrono_parse h (trim e) (wall_clock h (clock_reads w)) of
             [] \<Rightarrow> (None, w1)
           | r # rs \<Rightarrow>
               if now < result_date r then
                 (case TimeClip (UTC h (LocalTime h (result_date r) - msPerDay)) of
                    None \<Rightarrow> (None, w2)
                  | Some d \<Rightarrow>
                      if d \<le> now then
                        (Some \<lparr>timestamp = d div 1000,
                               description = fst (generateDescription h e d w2), date = d\<rparr>, w3)
                      else (None, w2))
               else
                 (Some \<lparr>timestamp = result_date r div 1000,
                        description = fst (generateDescription h e (result_date r) w2),
                        date = result_date r\<rparr>, w3))"
  by (simp add: parseTimeExpression_def chrono_parse_call_def new_Date_def index_def Let_def
      split_def setDate_day_before floor_div_eq generateDescription_world world_eq
      split: list.splits option.splits)

lemma week_old:
  assumes "7 \<le> (x :: int) div 86400000"
  shows "\<not> x div 60000 < 60" and "\<not> x div 3600000 < 24" and "\<not> x div 86400000 < 7"
  using assms by linarith+

lemma generateDescription_verbatim:
  assumes "7 \<le> (wall_clock h (clock_reads w) - d) div 86400000"
  shows "fst (generateDescription h e d w) = e @ lit '' ('' @ formatDate h d @ lit '')''"
  using week_old [OF assms] by (simp add: generateDescription_fst Let_def)

subsection \<open>Runs on the sample host\<close>

lemmas calendar_defs =
  DateFromTime_def MonthFromTime_def DayWithinYear_def InLeapYear_def YearFromTime_def
  DayFromYear_def DaysInYear_def monthStart_def MakeDay_def MakeDate_def TimeClip_def
  Day_def TimeWithinDay_def msPerDay_def floor_div_eq Let_def

lemmas resolver_defs =
  parseTimeExpression_def generateDescription_def chrono_parse_call_def new_Date_def index_def
  formatTime_def formatDate_def floor_div_eq Let_def

lemma sample_host_sel:
  "wall_clock sample_host k = 1718452800000 + int k"
  "chrono_parse sample_host = sample_grammar"
  "LocalTZA sample_host t u = - 14400000"
  "toLocaleTimeString sample_host d l opts = sample_time d"
  "toLocaleDateString sample_host d l opts = sample_date d"
  by (simp_all add: sample_host_def)

lemma sample_trims:
  "trim (lit ''2 hours ago'') = lit ''2 hours ago''"
  "trim (lit ''yesterday'') = lit ''yesterday''"
  "trim (lit ''11pm'') = lit ''11pm''"
  "trim (lit ''next year'') = lit ''next year''"
  "trim (lit ''3 weeks ago'') = lit ''3 weeks ago''"
  "trim (lit '' 3 weeks ago  '') = lit ''3 weeks ago''"
  "trim (lit ''   '') = []"
  "trim [] = []"
  by (simp_all add: trim_def lit_def isWhiteSpace_def)

lemma sample_grammar_runs:
  "sample_grammar (lit ''2 hours ago'') r = [\<lparr>match_index = 0, result_date = r - 7200000\<rparr>]"
  "sample_grammar (lit ''yesterday'') r = [\<lparr>match_index = 0, result_date = r - 86400000\<rparr>]"
  "sample_grammar (lit ''3 weeks ago'') r = [\<lparr>match_index = 0, result_date = r - 1814400000\<rparr>]"
  "sample_grammar (lit ''11pm'') r = [\<lparr>match_index = 0, result_date = 1718506800000\<rparr>]"
  "sample_grammar (lit ''next year'') r = [\<lparr>match_index = 0, result_date = r + 31536000000\<rparr>]"
  by (simp_all add: sample_grammar_def lit_def)

lemma sample_numbers:
  "Number_toString 2 = lit ''2''"
  "Number_toString 9 = lit ''9''"
  "Number_toString 1 = lit ''1''"
  "Number_toString 6 = lit ''6''"
  "Number_toString 23 = lit ''23''"
  "Number_toString 59 = lit ''59''"
  by (simp_all add: Number_toString_def digits.simps)

lemma sample_time_runs:
  "sample_time 1718366400000 = lit ''8:00 AM''"
  "sample_time 1716638400000 = lit ''8:00 AM''"
  by (simp_all add: sample_time_def TimeWithinDay_def msPerDay_def Number_toString_def
      digits.simps Let_def lit_def)

lemma sample_calendar_runs:
  "Day 1716624000000 mod 7 = 2"
  "MonthFromTime 1716624000000 = 4"
  "DateFromTime 1716624000000 = 25"
  "YearFromTime 1718492400000 = 2024"
  "MonthFromTime 1718492400000 = 5"
  "DateFromTime 1718492400000 = 15"
  "MakeDay 2024 5 14 = 19888"
  "YearFromTime 1749974400000 = 2025"
  "MonthFromTime 1749974400000 = 5"
  "DateFromTime 1749974400000 = 15"
  "MakeDay 2025 5 14 = 20253"
  by (simp_all add: calendar_defs)

lemma sample_date_runs:
  "sample_date 1716638400000 = lit ''Sat, May 25, 8:00 AM''"
  by (simp add: sample_date_def sample_calendar_runs sample_time_runs Number_toString_def
      digits.simps lit_def)

lemma sample_setDate_runs:
  "getDate sample_host 1718506800000 = 15"
  "setDate sample_host 1718506800000 14 = Some 1718420400000"
  "getDate sample_host 1749988800000 = 15"
  "setDate sample_host 1749988800000 14 = Some 1749902400000"
  by (simp_all add: getDate_def setDate_def LocalTime_def UTC_def sample_host_sel
      sample_calendar_runs MakeDate_def TimeClip_def TimeWithinDay_def msPerDay_def)

lemma run_2_hours_ago:
  "parseTimeExpression sample_host (lit ''2 hours ago'') sample_world =
     (Some \<lparr>timestamp = 1718445600, description = lit ''2 hours ago'', date = 1718445600000\<rparr>,
      \<lparr>clock_reads = 3, grammar_calls = [lit ''2 hours ago'']\<rparr>)"
  by (simp add: resolver_defs sample_host_sel sample_world_def sample_trims sample_grammar_runs
      sample_numbers lit_eq_Nil_iff) (simp add: lit_def)

lemma run_11pm:
  "parseTimeExpression sample_host (lit ''11pm'') sample_world =
     (Some \<lparr>timestamp = 1718420400, description = lit ''9 hours ago'', date = 1718420400000\<rparr>,
      \<lparr>clock_reads = 3, grammar_calls = [lit ''11pm'']\<rparr>)"
  by (simp add: resolver_defs sample_host_sel sample_world_def sample_trims sample_grammar_runs
      sample_numbers sample_setDate_runs lit_eq_Nil_iff) (simp add: lit_def)

lemma run_3_weeks_ago:
  "parseTimeExpression sample_host (lit '' 3 weeks ago  '') sample_world =
     (Some \<lparr>timestamp = 1716638400,
            description = lit '' 3 weeks ago   (Sat, May 25, 8:00 AM)'', date = 1716638400000\<rparr>,
      \<lparr>clock_reads = 3, grammar_calls = [lit ''3 weeks ago'']\<rparr>)"
  by (simp add: resolver_defs sample_host_sel sample_world_def sample_trims sample_grammar_runs
      sample_numbers sample_date_runs lit_eq_Nil_iff) (simp add: lit_def)

lemma run_next_year:
  "parseTimeExpression sample_host (lit ''next year'') sample_world =
     (None, \<lparr>clock_reads = 2, grammar_calls = [lit ''next year'']\<rparr>)"
  by (simp add: resolver_defs sample_host_sel sample_world_def sample_trims sample_grammar_runs
      sample_numbers sample_setDate_runs lit_eq_Nil_iff)

lemma run_yesterday:
  "parseTimeExpression sample_host (lit ''yesterday'') sample_world =
     (Some \<lparr>timestamp = 1718366400, description = lit ''yesterday at 8:00 AM'', date = 1718366400000\<rparr>,
      \<lparr>clock_reads = 3, grammar_calls = [lit ''yesterday'']\<rparr>)"
  by (simp add: resolver_defs sample_host_sel sample_world_def sample_trims sample_grammar_runs
      sample_numbers sample_time_runs lit_eq_Nil_iff) (simp add: lit_def)

lemma run_2_hours_ago_late:
  "parseTimeExpression sample_host (lit ''2 hours ago'') \<lparr>clock_reads = 999, grammar_calls = []\<rparr> =
     (Some \<lparr>timestamp = 1718445600, description = lit ''2 hours ago'', date = 1718445600999\<rparr>,
      \<lparr>clock_reads = 1002, grammar_calls = [lit ''2 hours ago'']\<rparr>)"
  by (simp add: resolver_defs sample_host_sel sample_trims sample_grammar_runs
      sample_numbers lit_eq_Nil_iff) (simp add: lit_def)

lemma run_3_weeks_ago_trimmed:
  "parseTimeExpression sample_host (lit ''3 weeks ago'') sample_world =
     (Some \<lparr>timestamp = 1716638400,
            description = lit ''3 weeks ago (Sat, May 25, 8:00 AM)'', date = 1716638400000\<rparr>,
      \<lparr>clock_reads = 3, grammar_calls = [lit ''3 weeks ago'']\<rparr>)"
  by (simp add: resolver_defs sample_host_sel sample_world_def sample_trims sample_grammar_runs
      sample_numbers sample_date_runs lit_eq_Nil_iff) (simp add: lit_def)

subsection \<open>What a successful resolution returns\<close>

lemma generateDescription_nonempty: "fst (generateDescription h e d w) \<noteq> []"
  by (simp add: generateDescription_fst Let_def lit_eq_Nil_iff)

lemma parseTimeExpression_Some:
  assumes "parseTimeExpression h e w = (Some p, w')"
  shows "trim e \<noteq> []"
    and "\<exists>r rs. chrono_parse h (trim e) (wall_clock h (clock_reads w)) = r # rs \<and>
           (if wall_clock h (Suc (clock_reads w)) < result_date r
            then TimeClip (UTC h (LocalTime h (result_date r) - msPerDay)) = Some (date p)
            else date p = result_date r)"
    and "date p \<le> wall_clock h (Suc (clock_reads w))"
    and "timestamp p = date p div 1000"
    and "description p =
           fst (generateDescription h e (date p)
                  \<lparr>clock_reads = Suc (Suc (clock_reads w)),
                   grammar_calls = grammar_calls w @ [trim e]\<rparr>)"
    and "w' = \<lparr>clock_reads = Suc (Suc (Suc (clock_reads w))),
               grammar_calls = grammar_calls w @ [trim e]\<rparr>"
  using assms
  by (auto simp: parseTimeExpression_unfold Let_def
      split: if_splits list.splits option.splits)

lemma floor_div_bounds:
  "floor_div a 1000 = \<lfloor>real_of_int a / 1000\<rfloor>"
  "1000 * floor_div a 1000 \<le> a"
  "a < 1000 * floor_div a 1000 + 1000"
proof -
  show "floor_div a 1000 = \<lfloor>real_of_int a / 1000\<rfloor>" by (simp add: floor_div_def)
  have "a = 1000 * (a div 1000) + a mod 1000" by simp
  moreover have "0 \<le> a mod 1000" "a mod 1000 < 1000" by simp_all
  ultimately show "1000 * floor_div a 1000 \<le> a" "a < 1000 * floor_div a 1000 + 1000"
    unfolding floor_div_eq by linarith+
qed

lemma sample_extra_runs:
  "trim (lit ''30 minutes ago'') = lit ''30 minutes ago''"
  "trim (lit ''3 days ago'') = lit ''3 days ago''"
  "sample_grammar (lit ''30 minutes ago'') r = [\<lparr>match_index = 0, result_date = r - 1800000\<rparr>]"
  "sample_grammar (lit ''3 days ago'') r = [\<lparr>match_index = 0, result_date = r - 259200000\<rparr>]"
  "Number_toString 30 = lit ''30''"
  "Number_toString 3 = lit ''3''"
  "sample_time 1718193600000 = lit ''8:00 AM''"
  by (simp_all add: trim_def isWhiteSpace_def sample_grammar_def sample_time_def
      TimeWithinDay_def msPerDay_def Number_toString_def digits.simps Let_def lit_def)

lemma run_30_minutes_ago:
  "parseTimeExpression sample_host (lit ''30 minutes ago'') sample_world =
     (Some \<lparr>timestamp = 1718451000, description = lit ''30 minutes ago'',
            date = 1718451000000\<rparr>,
      \<lparr>clock_reads = 3, grammar_calls = [lit ''30 minutes ago'']\<rparr>)"
  by (simp add: resolver_defs sample_host_sel sample_world_def sample_extra_runs
      lit_eq_Nil_iff) (simp add: lit_def)

lemma run_3_days_ago:
  "parseTimeExpression sample_host (lit ''3 days ago'') sample_world =
     (Some \<lparr>timestamp = 1718193600, description = lit ''3 days ago at 8:00 AM'',
            date = 1718193600000\<rparr>,
      \<lparr>clock_reads = 3, grammar_calls = [lit ''3 days ago'']\<rparr>)"
  by (simp add: resolver_defs sample_host_sel sample_world_def sample_extra_runs
      lit_eq_Nil_iff) (simp add: lit_def)

subsection \<open>The shifted local time, and a run across a daylight-saving gap\<close>

lemma Day_MakeDate:
  assumes "0 \<le> t" and "t < msPerDay"
  shows "Day (MakeDate d t) = d"
  using assms by (simp add: Day_def MakeDate_def floor_div_eq msPerDay_def)

lemma TimeWithinDay_MakeDate:
  assumes "0 \<le> t" and "t < msPerDay"
  shows "TimeWithinDay (MakeDate d t) = t"
  using assms by (simp add: TimeWithinDay_def MakeDate_def msPerDay_def)

lemma TimeWithinDay_range: "0 \<le> TimeWithinDay t" "TimeWithinDay t < msPerDay"
  by (simp_all add: TimeWithinDay_def msPerDay_def)

lemma sample_format_runs:
  "formatTime sample_host 1718366400000 = lit ''8:00 AM''"
  "formatDate sample_host 1716638400000 = lit ''Sat, May 25, 8:00 AM''"
  by (simp_all add: formatTime_def formatDate_def sample_host_sel sample_time_runs
      sample_date_runs)

lemma gap_host_sel:
  "wall_clock gap_host k = 1710072000000 + int k"
  "chrono_parse gap_host = gap_grammar"
  "LocalTZA gap_host t True = (if t < 1710054000000 then - 18000000 else - 14400000)"
  "LocalTZA gap_host t False = (if t < 1710039600000 then - 18000000 else - 14400000)"
  by (simp_all add: gap_host_def)

lemma gap_calendar_runs:
  "YearFromTime 1710124200000 = 2024"
  "MonthFromTime 1710124200000 = 2"
  "DateFromTime 1710124200000 = 11"
  "MakeDay 2024 2 10 = 19792"
  "TimeWithinDay 1710124200000 = 9000000"
  "TimeWithinDay 1710041400000 = 12600000"
  "Day 1710124200000 = 19793"
  "Day 1710041400000 = 19792"
  by (simp_all add: calendar_defs)

lemma gap_setDate_runs:
  "LocalTime gap_host 1710138600000 = 1710124200000"
  "LocalTime gap_host 1710055800000 = 1710041400000"
  "getDate gap_host 1710138600000 = 11"
  "setDate gap_host 1710138600000 10 = Some 1710055800000"
  by (simp_all add: getDate_def setDate_def LocalTime_def UTC_def gap_host_sel
      gap_calendar_runs MakeDate_def TimeClip_def msPerDay_def)

lemma gap_trims: "trim (lit ''monday at 2:30am'') = lit ''monday at 2:30am''"
  by (simp add: trim_def lit_def isWhiteSpace_def)

lemma gap_grammar_runs:
  "gap_grammar (lit ''monday at 2:30am'') r = [\<lparr>match_index = 0, result_date = 1710138600000\<rparr>]"
  by (simp add: gap_grammar_def)

lemma sample_numbers_4: "Number_toString 4 = lit ''4''"
  by (simp add: Number_toString_def digits.simps)

lemma run_monday_gap:
  "parseTimeExpression gap_host (lit ''monday at 2:30am'') sample_world =
     (Some \<lparr>timestamp = 1710055800, description = lit ''4 hours ago'', date = 1710055800000\<rparr>,
      \<lparr>clock_reads = 3, grammar_calls = [lit ''monday at 2:30am'']\<rparr>)"
  by (simp add: resolver_defs gap_host_sel sample_world_def gap_trims gap_grammar_runs
      sample_numbers_4 gap_setDate_runs lit_eq_Nil_iff) (simp add: lit_def)

section \<open>The claims\<close>

text \<open>
  C1. Past-only invariant. Whenever \<open>parseTimeExpression\<close> returns a \<open>ParsedTime\<close>, its
  \<open>date\<close> is at or before \<open>now\<close>, the reading of the clock that the resolution compares
  with (the reading after the one the grammar took for its reference).
\<close>

theorem past_only_invariant:
  assumes "parseTimeExpression h expression w = (Some p, w')"
  shows "date p \<le> wall_clock h (Suc (clock_reads w))"
  using assms by (rule parseTimeExpression_Some(3))

theorem past_only_invariant_witness:
  "parseTimeExpression sample_host (lit ''11pm'') sample_world =
     (Some \<lparr>timestamp = 1718420400, description = lit ''9 hours ago'', date = 1718420400000\<rparr>,
      \<lparr>clock_reads = 3, grammar_calls = [lit ''11pm'']\<rparr>)
   \<and> date \<lparr>timestamp = 1718420400, description = lit ''9 hours ago'', date = 1718420400000\<rparr>
         \<le> wall_clock sample_host (Suc (clock_reads sample_world))"
  using past_only_invariant [OF run_11pm] run_11pm by simp

text \<open>
  C2 (as amended). One-day-back disambiguation. When the first candidate of the grammar lies
  strictly after \<open>now\<close>, the resolution takes the local time of the candidate, moves it to the
  previous calendar day at the same time within the day (the source does it with
  \<^verbatim>\<open>setDate(getDate() - 1)\<close>) and lets the host convert that local time back to an instant.
  If the shifted instant is at or before \<open>now\<close> it is the resolved instant, with its timestamp
  and description; otherwise the result is \<open>None\<close> (a shifted time outside the range of time
  values is an Invalid Date, which is not at or before \<open>now\<close> either). On a host where the
  shifted local time reads back as itself, the resolved instant has the clock time of the
  candidate, one calendar day earlier.
\<close>

theorem one_day_back_disambiguation:
  assumes "trim expression \<noteq> []"
    and "chrono_parse h (trim expression) (wall_clock h (clock_reads w)) = r # rs"
    and "wall_clock h (Suc (clock_reads w)) < result_date r"
  shows "fst (parseTimeExpression h expression w) =
     (let now = wall_clock h (Suc (clock_reads w));
          local = LocalTime h (result_date r);
          w2 = \<lparr>clock_reads = Suc (Suc (clock_reads w)),
                grammar_calls = grammar_calls w @ [trim expression]\<rparr>
      in case TimeClip (UTC h (MakeDate (Day local - 1) (TimeWithinDay local))) of
           None \<Rightarrow> None
         | Some shifted \<Rightarrow>
             if shifted \<le> now then
               Some \<lparr>timestamp = floor_div shifted 1000,
                     description = fst (generateDescription h expression shifted w2),
                     date = shifted\<rparr>
             else None)
   \<and> (let local = LocalTime h (result_date r);
           shiftedLocal = MakeDate (Day local - 1) (TimeWithinDay local)
       in LocalTime h (UTC h shiftedLocal) = shiftedLocal \<longrightarrow>
          (\<forall>p. fst (parseTimeExpression h expression w) = Some p \<longrightarrow>
             Day (LocalTime h (date p)) = Day local - 1
             \<and> TimeWithinDay (LocalTime h (date p)) = TimeWithinDay local))"
proof -
  define local where "local = LocalTime h (result_date r)"
  define shiftedLocal where "shiftedLocal = MakeDate (Day local - 1) (TimeWithinDay local)"
  have s: "shiftedLocal = local - msPerDay"
    unfolding shiftedLocal_def using MakeDate_Day [of local "- 1"] by simp
  have 1: "fst (parseTimeExpression h expression w) =
     (case TimeClip (UTC h shiftedLocal) of
        None \<Rightarrow> None
      | Some shifted \<Rightarrow>
          if shifted \<le> wall_clock h (Suc (clock_reads w)) then
            Some \<lparr>timestamp = floor_div shifted 1000,
                  description = fst (generateDescription h expression shifted
                    \<lparr>clock_reads = Suc (Suc (clock_reads w)),
                     grammar_calls = grammar_calls w @ [trim expression]\<rparr>),
                  date = shifted\<rparr>
          else None)"
    using assms
    by (simp add: parseTimeExpression_unfold Let_def floor_div_eq s local_def
        split: option.splits)
  have 2: "Day (LocalTime h (date p)) = Day local - 1
           \<and> TimeWithinDay (LocalTime h (date p)) = TimeWithinDay local"
    if rt: "LocalTime h (UTC h shiftedLocal) = shiftedLocal"
      and p: "fst (parseTimeExpression h expression w) = Some p" for p
  proof -
    from p have "date p = UTC h shiftedLocal"
      unfolding 1 by (auto simp: TimeClip_def split: option.splits if_splits)
    then have "LocalTime h (date p) = shiftedLocal" using rt by simp
    then show ?thesis
      unfolding shiftedLocal_def
      by (simp add: Day_MakeDate TimeWithinDay_MakeDate TimeWithinDay_range)
  qed
  from 1 2 show ?thesis
    unfolding Let_def local_def [symmetric] shiftedLocal_def [symmetric] by blast
qed

theorem one_day_back_disambiguation_witness:
  "trim (lit ''11pm'') \<noteq> []
   \<and> chrono_parse sample_host (trim (lit ''11pm'')) (wall_clock sample_host 0)
       = [\<lparr>match_index = 0, result_date = 1718506800000\<rparr>]
   \<and> wall_clock sample_host 1 < 1718506800000
   \<and> LocalTime sample_host (UTC sample_host (MakeDate (19889 - 1) 82800000))
       = MakeDate (19889 - 1) 82800000
   \<and> fst (parseTimeExpression sample_host (lit ''11pm'') sample_world)
       = Some \<lparr>timestamp = 1718420400, description = lit ''9 hours ago'', date = 1718420400000\<rparr>
   \<and> Day (LocalTime sample_host 1718506800000) = 19889
   \<and> TimeWithinDay (LocalTime sample_host 1718506800000) = 23 * 3600000
   \<and> Day (LocalTime sample_host 1718420400000) = 19888
   \<and> TimeWithinDay (LocalTime sample_host 1718420400000) = 23 * 3600000
   \<and> fst (parseTimeExpression sample_host (lit ''next year'') sample_world) = None"
proof -
  have a: "trim (lit ''11pm'') \<noteq> []" "trim (lit ''next year'') \<noteq> []"
    by (simp_all add: sample_trims lit_eq_Nil_iff)
  have b: "chrono_parse sample_host (trim (lit ''11pm''))
             (wall_clock sample_host (clock_reads sample_world))
           = \<lparr>match_index = 0, result_date = 1718506800000\<rparr> # []"
    by (simp add: sample_trims sample_host_sel sample_grammar_runs)
  have c: "wall_clock sample_host (Suc (clock_reads sample_world))
             < result_date \<lparr>match_index = 0, result_date = 1718506800000\<rparr>"
    by (simp add: sample_host_sel sample_world_def)
  have b': "chrono_parse sample_host (trim (lit ''next year''))
             (wall_clock sample_host (clock_reads sample_world))
           = \<lparr>match_index = 0, result_date = 1749988800000\<rparr> # []"
    by (simp add: sample_trims sample_host_sel sample_grammar_runs sample_world_def)
  have c': "wall_clock sample_host (Suc (clock_reads sample_world))
             < result_date \<lparr>match_index = 0, result_date = 1749988800000\<rparr>"
    by (simp add: sample_host_sel sample_world_def)
  have d: "Day 1718492400000 = 19889" "TimeWithinDay 1718492400000 = 82800000"
    "Day 1749974400000 = 20254" "TimeWithinDay 1749974400000 = 28800000"
    "Day 1718406000000 = 19888" "TimeWithinDay 1718406000000 = 82800000"
    by (simp_all add: Day_def TimeWithinDay_def msPerDay_def floor_div_eq)
  have e: "fst (generateDescription sample_host (lit ''11pm'') 1718420400000
                 \<lparr>clock_reads = Suc (Suc 0), grammar_calls = [lit ''11pm'']\<rparr>)
           = lit ''9 hours ago''"
    by (simp add: generateDescription_fst sample_host_sel sample_numbers) (simp add: lit_def)
  show ?thesis
    using a(1) b c
      one_day_back_disambiguation [OF a(1) b c]
      one_day_back_disambiguation [OF a(2) b' c']
    by (simp add: sample_host_sel sample_world_def sample_trims LocalTime_def UTC_def d e
        MakeDate_def TimeClip_def msPerDay_def floor_div_eq)
qed

text \<open>
  C2 as stated has the shifted instant at the clock time of the candidate, one calendar day
  earlier, on every host. On the host with the daylight-saving transition, at noon UTC of
  Sunday 2024-03-10, the candidate Monday 02:30 local time lies after \<open>now\<close>; the local
  time Sunday 02:30 does not exist, and the resolved instant is Sunday 03:30 local time, 23
  hours before the candidate.
\<close>

theorem one_day_back_gap_counterexample:
  "chrono_parse gap_host (trim (lit ''monday at 2:30am'')) (wall_clock gap_host 0)
     = [\<lparr>match_index = 0, result_date = 1710138600000\<rparr>]
   \<and> wall_clock gap_host 1 < 1710138600000
   \<and> fst (parseTimeExpression gap_host (lit ''monday at 2:30am'') sample_world)
       = Some \<lparr>timestamp = 1710055800, description = lit ''4 hours ago'', date = 1710055800000\<rparr>
   \<and> TimeWithinDay (LocalTime gap_host 1710138600000) = 2 * 3600000 + 30 * 60000
   \<and> TimeWithinDay (LocalTime gap_host 1710055800000) = 3 * 3600000 + 30 * 60000
   \<and> Day (LocalTime gap_host 1710055800000) = Day (LocalTime gap_host 1710138600000) - 1
   \<and> (1710138600000 :: int) - 1710055800000 = 23 * 3600000"
  by (simp add: run_monday_gap gap_trims gap_host_sel gap_grammar_runs gap_setDate_runs
      gap_calendar_runs)

text \<open>
  C3 (as amended). Tie-break at the thresholds. The comparisons are strict: exactly 60 minutes
  is described as \<^verbatim>\<open>1 hour ago\<close> and one millisecond less as \<^verbatim>\<open>59 minutes ago\<close>; exactly 24
  hours is described as \<^verbatim>\<open>yesterday at\<close> followed by the local time (the form of the days
  branch for a count of one) and one millisecond less as \<^verbatim>\<open>23 hours ago\<close>; exactly 7 days takes
  the branch that echoes the expression, and one millisecond less is \<^verbatim>\<open>6 days ago at\<close>
  followed by the local time. Here \<open>now\<close> is the reading of the clock that
  \<open>generateDescription\<close> takes.
\<close>

theorem tie_break_boundaries:
  "fst (generateDescription h e (wall_clock h (clock_reads w) - 60 * 60000) w)
     = lit ''1 hour ago''
   \<and> fst (generateDescription h e (wall_clock h (clock_reads w) - (60 * 60000 - 1)) w)
     = lit ''59 minutes ago''
   \<and> fst (generateDescription h e (wall_clock h (clock_reads w) - 24 * 3600000) w)
     = lit ''yesterday at '' @ formatTime h (wall_clock h (clock_reads w) - 24 * 3600000)
   \<and> fst (generateDescription h e (wall_clock h (clock_reads w) - (24 * 3600000 - 1)) w)
     = lit ''23 hours ago''
   \<and> fst (generateDescription h e (wall_clock h (clock_reads w) - 7 * 86400000) w)
     = e @ lit '' ('' @ formatDate h (wall_clock h (clock_reads w) - 7 * 86400000) @ lit '')''
   \<and> fst (generateDescription h e (wall_clock h (clock_reads w) - (7 * 86400000 - 1)) w)
     = lit ''6 days ago at '' @ formatTime h (wall_clock h (clock_reads w) - (7 * 86400000 - 1))"
  by (simp add: generateDescription_fst Let_def sample_numbers) (simp add: lit_def)

theorem tie_break_boundaries_witness:
  "fst (generateDescription sample_host (lit ''yesterday'') 1718366400000 sample_world)
     = lit ''yesterday at 8:00 AM''"
  using tie_break_boundaries [of sample_host "lit ''yesterday''" sample_world]
  by (simp add: sample_host_sel sample_world_def formatTime_def sample_time_runs) (simp add: lit_def)

text \<open>
  C3 as stated has exactly 24 hours described as \<^verbatim>\<open>1 day ago\<close>. On the sample host, for an
  instant exactly 24 hours before the reading of the clock, the description is
  \<^verbatim>\<open>yesterday at 8:00 AM\<close>: the source returns the \<^verbatim>\<open>yesterday\<close> form whenever the count of
  days is 1, so the count form never prints a 1.
\<close>

theorem tie_break_24_hours_counterexample:
  "wall_clock sample_host (clock_reads sample_world) - 1718366400000 = 24 * 60 * 60 * 1000
   \<and> fst (generateDescription sample_host (lit ''yesterday'') 1718366400000 sample_world)
       = lit ''yesterday at 8:00 AM''
   \<and> fst (generateDescription sample_host (lit ''yesterday'') 1718366400000 sample_world)
       \<noteq> lit ''1 day ago at 8:00 AM''
   \<and> \<not> prefix (lit ''1 day'')
         (fst (generateDescription sample_host (lit ''yesterday'') 1718366400000 sample_world))"
  by (simp add: resolver_defs sample_host_sel sample_world_def sample_time_runs sample_numbers)
     (simp add: lit_def)

text \<open>
  C4. Description branch selection. For a successful resolution, with \<open>now\<close> the reading of
  the clock that \<open>generateDescription\<close> takes (the one after the reading the resolution
  compared with) and \<open>deltaMinutes\<close>, \<open>deltaHours\<close>, \<open>deltaDays\<close> the floors of
  \<open>now - date\<close> in minutes, hours and days: below 60 minutes the description counts minutes,
  else below 24 hours it counts hours, else below 7 days it is \<^verbatim>\<open>yesterday at\<close> and the local
  time for one day and the count of days and the local time otherwise, else it is the
  expression as given followed by the formatted date in parentheses. The unit is singular
  exactly when the count is 1. The local time is what the host's \<^verbatim>\<open>toLocaleTimeString\<close> prints
  for the resolved instant in the locale \<^verbatim>\<open>en-US\<close> with a numeric hour, two-digit minutes and
  the 12-hour clock; the formatted date is what its \<^verbatim>\<open>toLocaleDateString\<close> prints there with,
  in addition, the short weekday, the short month and the numeric day.
\<close>

theorem description_branch_selection:
  assumes "parseTimeExpression h expression w = (Some p, w')"
  shows "description p =
     (let now = wall_clock h (Suc (Suc (clock_reads w)));
          deltaMinutes = floor_div (now - date p) 60000;
          deltaHours = floor_div (now - date p) 3600000;
          deltaDays = floor_div (now - date p) 86400000;
          localTime = toLocaleTimeString h (date p) (lit ''en-US'')
            \<lparr>weekday = None, month = None, day = None,
             hour = Some ''numeric'', minute = Some ''2-digit'', hour12 = Some True\<rparr>;
          formattedCalendarDate = toLocaleDateString h (date p) (lit ''en-US'')
            \<lparr>weekday = Some ''short'', month = Some ''short'', day = Some ''numeric'',
             hour = Some ''numeric'', minute = Some ''2-digit'', hour12 = Some True\<rparr>
      in if deltaMinutes < 60 then
           Number_toString deltaMinutes @ lit '' minute''
             @ (if deltaMinutes = 1 then [] else lit ''s'') @ lit '' ago''
         else if deltaHours < 24 then
           Number_toString deltaHours @ lit '' hour''
             @ (if deltaHours = 1 then [] else lit ''s'') @ lit '' ago''
         else if deltaDays < 7 then
           (if deltaDays = 1 then lit ''yesterday at '' @ localTime
            else Number_toString deltaDays @ lit '' day''
                   @ (if deltaDays = 1 then [] else lit ''s'') @ lit '' ago at '' @ localTime)
         else expression @ lit '' ('' @ formattedCalendarDate @ lit '')'')"
  unfolding parseTimeExpression_Some(5) [OF assms] generateDescription_fst floor_div_eq
    formatTime_def formatDate_def
  by (simp add: Let_def)

theorem description_branch_selection_witness:
  "fst (parseTimeExpression sample_host (lit ''30 minutes ago'') sample_world)
     = Some \<lparr>timestamp = 1718451000, description = lit ''30 minutes ago'',
             date = 1718451000000\<rparr>
   \<and> fst (parseTimeExpression sample_host (lit ''2 hours ago'') sample_world)
     = Some \<lparr>timestamp = 1718445600, description = lit ''2 hours ago'', date = 1718445600000\<rparr>
   \<and> fst (parseTimeExpression sample_host (lit ''yesterday'') sample_world)
     = Some \<lparr>timestamp = 1718366400, description = lit ''yesterday at 8:00 AM'',
             date = 1718366400000\<rparr>
   \<and> fst (parseTimeExpression sample_host (lit ''3 days ago'') sample_world)
     = Some \<lparr>timestamp = 1718193600, description = lit ''3 days ago at 8:00 AM'',
             date = 1718193600000\<rparr>
   \<and> fst (parseTimeExpression sample_host (lit '' 3 weeks ago  '') sample_world)
     = Some \<lparr>timestamp = 1716638400,
             description = lit '' 3 weeks ago   (Sat, May 25, 8:00 AM)'', date = 1716638400000\<rparr>
   \<and> floor_div (wall_clock sample_host 2 - 1718451000000) 60000 = 30
   \<and> floor_div (wall_clock sample_host 2 - 1718445600000) 3600000 = 2
   \<and> floor_div (wall_clock sample_host 2 - 1718366400000) 86400000 = 1
   \<and> floor_div (wall_clock sample_host 2 - 1718193600000) 86400000 = 3
   \<and> floor_div (wall_clock sample_host 2 - 1716638400000) 86400000 = 21
   \<and> toLocaleTimeString sample_host 1718366400000 (lit ''en-US'')
        \<lparr>weekday = None, month = None, day = None,
         hour = Some ''numeric'', minute = Some ''2-digit'', hour12 = Some True\<rparr>
       = lit ''8:00 AM''
   \<and> toLocaleDateString sample_host 1716638400000 (lit ''en-US'')
        \<lparr>weekday = Some ''short'', month = Some ''short'', day = Some ''numeric'',
         hour = Some ''numeric'', minute = Some ''2-digit'', hour12 = Some True\<rparr>
       = lit ''Sat, May 25, 8:00 AM''"
  using description_branch_selection [OF run_30_minutes_ago]
    description_branch_selection [OF run_2_hours_ago]
    description_branch_selection [OF run_yesterday]
    description_branch_selection [OF run_3_days_ago]
    description_branch_selection [OF run_3_weeks_ago]
  by (simp add: run_30_minutes_ago run_2_hours_ago run_yesterday run_3_days_ago run_3_weeks_ago
      sample_host_sel floor_div_eq sample_time_runs sample_date_runs)

text \<open>
  C5. Truncation to whole seconds. The \<open>timestamp\<close> of a successful resolution is the
  floor of the resolved instant in milliseconds divided by 1000, so it is never rounded up;
  \<open>getCurrentTimestamp\<close>, on every host and in every world, floors the current reading of
  the clock in the same way.
\<close>

theorem timestamp_truncation:
  "(parseTimeExpression h expression w = (Some p, w') \<longrightarrow>
      timestamp p = \<lfloor>real_of_int (date p) / 1000\<rfloor>
      \<and> 1000 * timestamp p \<le> date p \<and> date p < 1000 * timestamp p + 1000)
   \<and> fst (getCurrentTimestamp h w) = \<lfloor>real_of_int (wall_clock h (clock_reads w)) / 1000\<rfloor>
   \<and> 1000 * fst (getCurrentTimestamp h w) \<le> wall_clock h (clock_reads w)
   \<and> wall_clock h (clock_reads w) < 1000 * fst (getCurrentTimestamp h w) + 1000"
proof -
  have t: "timestamp p = floor_div (date p) 1000"
    if "parseTimeExpression h expression w = (Some p, w')"
    using parseTimeExpression_Some(4) [OF that] by (simp add: floor_div_eq)
  have g: "fst (getCurrentTimestamp h w) = floor_div (wall_clock h (clock_reads w)) 1000"
    by (simp add: getCurrentTimestamp_def new_Date_def)
  show ?thesis
    unfolding g using t floor_div_bounds [of "date p"]
      floor_div_bounds [of "wall_clock h (clock_reads w)"] by simp
qed

theorem timestamp_truncation_witness:
  "parseTimeExpression sample_host (lit ''2 hours ago'') \<lparr>clock_reads = 999, grammar_calls = []\<rparr> =
     (Some \<lparr>timestamp = 1718445600, description = lit ''2 hours ago'', date = 1718445600999\<rparr>,
      \<lparr>clock_reads = 1002, grammar_calls = [lit ''2 hours ago'']\<rparr>)
   \<and> (1718445600 :: int) = \<lfloor>real_of_int 1718445600999 / 1000\<rfloor>
   \<and> fst (getCurrentTimestamp sample_host \<lparr>clock_reads = 999, grammar_calls = []\<rparr>) = 1718452800
   \<and> wall_clock sample_host 999 = 1718452800999
   \<and> fst (getCurrentTimestamp gap_host sample_world) = 1710072000"
  using timestamp_truncation [of sample_host "lit ''2 hours ago''"
      "\<lparr>clock_reads = 999, grammar_calls = []\<rparr>"
      "\<lparr>timestamp = 1718445600, description = lit ''2 hours ago'', date = 1718445600999\<rparr>"
      "\<lparr>clock_reads = 1002, grammar_calls = [lit ''2 hours ago'']\<rparr>"]
    timestamp_truncation [of gap_host "[]" sample_world]
    run_2_hours_ago_late
  by (simp add: sample_host_sel gap_host_sel sample_world_def)

text \<open>
  C6. Empty-input rejection. For an expression that is empty or consists of white space only,
  \<open>parseTimeExpression\<close> returns \<open>None\<close> and leaves the world as it was: the grammar is
  not called (and the clock is not read).
\<close>

theorem empty_input_rejection:
  assumes "\<forall>c\<in>set expression. isWhiteSpace c"
  shows "parseTimeExpression h expression w = (None, w)
         \<and> grammar_calls (snd (parseTimeExpression h expression w)) = grammar_calls w"
proof -
  have "trim expression = []" using assms by (simp add: trim_Nil_iff)
  then show ?thesis by (simp add: parseTimeExpression_def)
qed

theorem empty_input_rejection_witness:
  "list_all isWhiteSpace (lit ''   '')
   \<and> parseTimeExpression sample_host (lit ''   '') sample_world = (None, sample_world)
   \<and> parseTimeExpression sample_host [] sample_world = (None, sample_world)
   \<and> grammar_calls (snd (parseTimeExpression sample_host (lit ''   '') sample_world)) = []"
proof -
  have a: "\<forall>c\<in>set (lit ''   ''). isWhiteSpace c" by (simp add: lit_def isWhiteSpace_def)
  have b: "\<forall>c\<in>set ([] :: jsstring). isWhiteSpace c" by simp
  show ?thesis
    using a empty_input_rejection [OF a, of sample_host sample_world]
      empty_input_rejection [OF b, of sample_host sample_world]
    by (simp add: sample_world_def list_all_iff)
qed

text \<open>
  C7. Resolvability check. \<open>validateTimeExpression\<close> returns true exactly when
  \<open>parseTimeExpression\<close> on the same expression does not return \<open>None\<close>, and its effect
  on the world is that of this one call of \<open>parseTimeExpression\<close>.
\<close>

theorem validate_iff_parse:
  "fst (validateTimeExpression h expression w)
     = (fst (parseTimeExpression h expression w) \<noteq> None)
   \<and> snd (validateTimeExpression h expression w) = snd (parseTimeExpression h expression w)"
  by (simp add: validateTimeExpression_def split_def Let_def)

theorem validate_iff_parse_witness:
  "fst (validateTimeExpression sample_host (lit ''2 hours ago'') sample_world)
   \<and> \<not> fst (validateTimeExpression sample_host (lit ''next year'') sample_world)
   \<and> snd (validateTimeExpression sample_host (lit ''next year'') sample_world)
       = \<lparr>clock_reads = 2, grammar_calls = [lit ''next year'']\<rparr>"
  using validate_iff_parse [of sample_host "lit ''2 hours ago''" sample_world]
    validate_iff_parse [of sample_host "lit ''next year''" sample_world]
  by (simp add: run_2_hours_ago run_next_year)

text \<open>
  C8. Examples catalog. \<open>getExamples\<close> is the fixed sequence of these ten expressions, in
  this order; it takes no argument and reads nothing, so every call returns it.
\<close>

theorem examples_catalog:
  "getExamples =
     map lit [''2 hours ago'', ''30 minutes ago'', ''1 day ago'', ''yesterday at 3pm'',
              ''yesterday 15:30'', ''last friday at 9am'', ''tuesday at noon'',
              ''3 days ago at 2pm'', ''this morning at 8am'', ''last night at 10pm'']
   \<and> length getExamples = 10"
  by (simp add: getExamples_def)

text \<open>
  C9. Non-empty description. Whenever \<open>parseTimeExpression\<close> returns a \<open>ParsedTime\<close>,
  its \<open>description\<close> is a non-empty string, whichever branch of \<open>generateDescription\<close>
  produced it.
\<close>

theorem description_non_empty:
  assumes "parseTimeExpression h expression w = (Some p, w')"
  shows "description p \<noteq> []"
  using parseTimeExpression_Some(5) [OF assms] by (simp add: generateDescription_nonempty)

theorem description_non_empty_witness:
  "parseTimeExpression sample_host (lit ''yesterday'') sample_world =
     (Some \<lparr>timestamp = 1718366400, description = lit ''yesterday at 8:00 AM'',
            date = 1718366400000\<rparr>,
      \<lparr>clock_reads = 3, grammar_calls = [lit ''yesterday'']\<rparr>)
   \<and> description \<lparr>timestamp = 1718366400, description = lit ''yesterday at 8:00 AM'',
                    date = 1718366400000\<rparr> \<noteq> []"
  using description_non_empty [OF run_yesterday] run_yesterday by simp

text \<open>
  C10. White space around the expression. Run from the same world, \<open>parseTimeExpression\<close> on
  an expression and on its trimmed form agree on whether they resolve, on \<open>timestamp\<close> and
  on \<open>date\<close>, and have the same effects, since only the trimmed text reaches the grammar.
  The description of an instant seven or more days old starts with the expression as it was
  given, white space included.
\<close>

theorem trim_agreement:
  "(fst (parseTimeExpression h expression w) = None
      \<longleftrightarrow> fst (parseTimeExpression h (trim expression) w) = None)
   \<and> map_option timestamp (fst (parseTimeExpression h expression w))
       = map_option timestamp (fst (parseTimeExpression h (trim expression) w))
   \<and> map_option date (fst (parseTimeExpression h expression w))
       = map_option date (fst (parseTimeExpression h (trim expression) w))
   \<and> snd (parseTimeExpression h expression w) = snd (parseTimeExpression h (trim expression) w)
   \<and> (\<forall>p. fst (parseTimeExpression h expression w) = Some p
          \<and> 7 \<le> floor_div (wall_clock h (Suc (Suc (clock_reads w))) - date p) 86400000
        \<longrightarrow> description p = expression @ lit '' ('' @ formatDate h (date p) @ lit '')'')"
proof -
  have 1: "(fst (parseTimeExpression h expression w) = None
      \<longleftrightarrow> fst (parseTimeExpression h (trim expression) w) = None)
   \<and> map_option timestamp (fst (parseTimeExpression h expression w))
       = map_option timestamp (fst (parseTimeExpression h (trim expression) w))
   \<and> map_option date (fst (parseTimeExpression h expression w))
       = map_option date (fst (parseTimeExpression h (trim expression) w))
   \<and> snd (parseTimeExpression h expression w) = snd (parseTimeExpression h (trim expression) w)"
    by (simp add: parseTimeExpression_unfold [of h expression]
        parseTimeExpression_unfold [of h "trim expression"] trim_idem Let_def
        split: list.splits option.splits)
  have 2: "description p = expression @ lit '' ('' @ formatDate h (date p) @ lit '')''"
    if "fst (parseTimeExpression h expression w) = Some p"
      and "7 \<le> floor_div (wall_clock h (Suc (Suc (clock_reads w))) - date p) 86400000" for p
  proof -
    from that(1) have "parseTimeExpression h expression w
        = (Some p, snd (parseTimeExpression h expression w))"
      by (metis prod.collapse)
    from parseTimeExpression_Some(5) [OF this] that(2) show ?thesis
      by (simp add: generateDescription_verbatim floor_div_eq)
  qed
  from 1 2 show ?thesis by blast
qed

theorem trim_agreement_witness:
  "fst (parseTimeExpression sample_host (lit '' 3 weeks ago  '') sample_world)
     = Some \<lparr>timestamp = 1716638400,
             description = lit '' 3 weeks ago   (Sat, May 25, 8:00 AM)'', date = 1716638400000\<rparr>
   \<and> fst (parseTimeExpression sample_host (trim (lit '' 3 weeks ago  '')) sample_world)
     = Some \<lparr>timestamp = 1716638400,
             description = lit ''3 weeks ago (Sat, May 25, 8:00 AM)'', date = 1716638400000\<rparr>
   \<and> 7 \<le> floor_div (wall_clock sample_host 2 - 1716638400000) 86400000
   \<and> lit '' 3 weeks ago   (Sat, May 25, 8:00 AM)''
       = lit '' 3 weeks ago  '' @ lit '' ('' @ formatDate sample_host 1716638400000 @ lit '')''"
proof -
  have r1: "fst (parseTimeExpression sample_host (lit '' 3 weeks ago  '') sample_world)
     = Some \<lparr>timestamp = 1716638400,
             description = lit '' 3 weeks ago   (Sat, May 25, 8:00 AM)'', date = 1716638400000\<rparr>"
    by (simp add: run_3_weeks_ago)
  have r2: "fst (parseTimeExpression sample_host (trim (lit '' 3 weeks ago  '')) sample_world)
     = Some \<lparr>timestamp = 1716638400,
             description = lit ''3 weeks ago (Sat, May 25, 8:00 AM)'', date = 1716638400000\<rparr>"
    by (simp add: sample_trims run_3_weeks_ago_trimmed)
  have r3: "7 \<le> floor_div (wall_clock sample_host (Suc (Suc (clock_reads sample_world)))
                          - 1716638400000) 86400000"
    by (simp add: sample_host_sel sample_world_def floor_div_eq)
  show ?thesis
    using trim_agreement [of sample_host "lit '' 3 weeks ago  ''" sample_world] r1 r2 r3
    by (simp add: sample_host_sel floor_div_eq)
qed

end
